theory Spec2Isabelle
  imports Main "HOL-Library.Char_ord" "HOL-Library.List_Lexorder"
begin

section \<open>Data model\<close>

text \<open>
  The exporter is Go code in three packages: \<^verbatim>\<open>fetcher\<close> (listing of billing periods,
  conditional manifest fetch, ingestion of report parts into SQLite), \<^verbatim>\<open>collector\<close>
  (\<^verbatim>\<open>Prefetch\<close>, \<^verbatim>\<open>UpdateReport\<close>) and the command (\<^verbatim>\<open>newGatherer\<close>).
  Go strings are byte strings and are compared bytewise, which is the lexicographic order of
  \<^typ>\<open>string\<close> over the byte order of \<^typ>\<open>char\<close>.

  \<^verbatim>\<open>type BillingPeriod string\<close>: the code converts with \<^verbatim>\<open>string(period)\<close> and compares
  periods with \<^verbatim>\<open><\<close>. An instant (\<^verbatim>\<open>time.Time\<close>) is an integer; the zero value
  \<^verbatim>\<open>time.Time{}\<close> is \<open>0\<close>.
\<close>

type_synonym BillingPeriod = string
type_synonym time = int

text \<open>
  Go errors. \<^verbatim>\<open>APIError code\<close> is an error that \<^verbatim>\<open>errors.As\<close> finds to be a
  \<^verbatim>\<open>smithy.APIError\<close> with that error code, \<^verbatim>\<open>Errorf\<close> an error made by
  \<^verbatim>\<open>fmt.Errorf\<close>, \<^verbatim>\<open>LibError\<close> any other error of a library call.
\<close>

datatype error = APIError string | LibError string | Errorf string

text \<open>A Go call either returns or panics (an index out of range is a run-time panic).\<close>

datatype 'a outcome = Return 'a | Panic

record Config =
  RepositoryPath :: string
  DatabasePath :: string
  QueriesPath :: string
  StateFilePath :: string
  BucketName :: string
  ReportName :: string
  ChainedRole :: string

record ReportManifest =
  AssemblyId :: string
  Compression :: string
  ContentType :: string
  BillingPeriod_Start :: string
  BillingPeriod_End :: string
  Bucket :: string
  ReportKeys :: "string list"

text \<open>
  \<^verbatim>\<open>state.State\<close>: the fields the code uses are \<^verbatim>\<open>Periods\<close> and the map
  \<^verbatim>\<open>ReportLastModified\<close> from the period string to the watermark.
\<close>

record State =
  Periods :: "BillingPeriod list"
  ReportLastModified :: "string \<rightharpoonup> time"

subsection \<open>The remote store, the local store and the effects\<close>

text \<open>
  A stored manifest object has a modification time and a body; the body is given by what
  \<^verbatim>\<open>decoder.Decode(&manifest)\<close> makes of it (part_002, lines 171-176): an error, or the
  value the pointer \<^verbatim>\<open>manifest\<close> holds afterwards. For the JSON literal \<^verbatim>\<open>null\<close> the decoder
  returns no error and sets the pointer to \<^verbatim>\<open>nil\<close>, which is \<open>None\<close> here; for a JSON
  object the pointer holds the decoded manifest. A stored report part is given by what the gzip
  and CSV readers make of it: whether \<^verbatim>\<open>gzip.NewReader\<close> fails, the result of the first
  \<^verbatim>\<open>r.Read()\<close> (the header), and the records of the following reads up to \<^verbatim>\<open>io.EOF\<close>.
  A read that fails with another error than \<^verbatim>\<open>io.EOF\<close> yields the \<^verbatim>\<open>nil\<close> record, which
  is \<open>[]\<close> here; the source looks at no error but \<^verbatim>\<open>io.EOF\<close> (part_002, lines 272-275).
\<close>

record manifest_object =
  LastModified :: time
  Body :: "error + ReportManifest option"

record part_object =
  gzip_NewReader :: "error option"
  csv_header :: "error + string list"
  csv_records :: "string list list"

datatype caller = ForPeriods | ForManifest | ForReport

datatype event =
    EvListPage
  | EvGetManifest BillingPeriod
  | EvResetSqlite
  | EvGetPart string
  | EvSave
  | EvCompute
  | EvGather

type_synonym table = "string list list"
type_synonym metrics = "string list list"

text \<open>
  Everything the code reads from outside: the answers of the object store, of SQLite, of the
  file system and of the parts of this repository that are not among the sources
  (\<^verbatim>\<open>state.ParseBillingPeriod\<close>, \<^verbatim>\<open>BillingPeriod.IsPastDue\<close>, \<^verbatim>\<open>fetcher.ResetSqlite\<close>,
  \<^verbatim>\<open>state.Save\<close>, \<^verbatim>\<open>processor.Compute\<close>), each taken as a parameter.
  \<^verbatim>\<open>time_Parse_Format s\<close> is \<^verbatim>\<open>time.Parse("20060102T150405Z", s)\<close> followed by
  \<^verbatim>\<open>Format("20060102")\<close>.
\<close>

record env =
  RefreshClient :: "caller \<Rightarrow> error option"
  ListPages :: "string \<Rightarrow> string \<Rightarrow> (error + string list) list"
  ParseBillingPeriod :: "string \<Rightarrow> error + BillingPeriod"
  IsPastDue :: "BillingPeriod \<Rightarrow> bool"
  Manifests :: "string \<Rightarrow> string \<Rightarrow> error + manifest_object"
  Parts :: "string \<Rightarrow> string \<Rightarrow> error + part_object"
  time_Parse_Format :: "string \<Rightarrow> error + string"
  os_Stat_error :: "string \<Rightarrow> bool"
  sql_Open :: "nat \<Rightarrow> error option"
  sql_BeginTx :: "nat \<Rightarrow> error option"
  sql_Prepare :: "string list \<Rightarrow> error option"
  sql_Exec :: "string list \<Rightarrow> error option"
  os_Create :: "string \<Rightarrow> error option"
  sql_Commit :: "nat \<Rightarrow> error option"
  ResetSqlite :: "table \<Rightarrow> table \<times> error option"
  Save :: "State \<Rightarrow> error option"
  Compute :: "table \<Rightarrow> error + metrics"

text \<open>
  What the process owns and changes: the committed rows of table \<^verbatim>\<open>records\<close>, the files
  that exist under the repository path, the state file, the metrics of the registry, and the
  sequence of outside effects so far.
\<close>

record world =
  db :: table
  files :: "string list"
  disk :: "State option"
  registry :: metrics
  trace :: "event list"

definition emit :: "event \<Rightarrow> world \<Rightarrow> world" where
  "emit e w = w\<lparr>trace := trace w @ [e]\<rparr>"

section \<open>Package fetcher (part_002)\<close>

subsection \<open>Helpers\<close>

text \<open>\<^verbatim>\<open>index\<close> (lines 55-62): the position of the first equal element, or \<open>-1\<close>.\<close>

fun index_from :: "string list \<Rightarrow> string \<Rightarrow> int \<Rightarrow> int" where
  "index_from [] item i = - 1"
| "index_from (x # xs) item i = (if x = item then i else index_from xs item (i + 1))"

definition index :: "string list \<Rightarrow> string \<Rightarrow> int" where
  "index slice item = index_from slice item 0"

text \<open>Go's \<^verbatim>\<open>xs[i]\<close>: a panic (here \<open>None\<close>) unless \<open>0 \<le> i < len(xs)\<close>.\<close>

definition at :: "'a list \<Rightarrow> int \<Rightarrow> 'a option" where
  "at xs i = (if 0 \<le> i \<and> i < int (length xs) then Some (xs ! nat i) else None)"

definition TrimPrefix :: "string \<Rightarrow> string \<Rightarrow> string" where
  "TrimPrefix s p = (if take (length p) s = p then drop (length p) s else s)"

definition TrimSuffix :: "string \<Rightarrow> string \<Rightarrow> string" where
  "TrimSuffix s p =
     (if length p \<le> length s \<and> drop (length s - length p) s = p
      then take (length s - length p) s else s)"

text \<open>\<^verbatim>\<open>strconv.FormatInt(int64(n), 10)\<close> for a slice index \<open>n\<close>.\<close>

fun FormatInt :: "nat \<Rightarrow> string" where
  "FormatInt n =
     (if n < 10 then [''0123456789'' ! n]
      else FormatInt (n div 10) @ [''0123456789'' ! (n mod 10)])"

declare FormatInt.simps [simp del]

text \<open>\<^verbatim>\<open>filepath.Join\<close> of three clean components.\<close>

definition filepath_Join :: "string \<Rightarrow> string \<Rightarrow> string \<Rightarrow> string" where
  "filepath_Join a b c = a @ ''/'' @ b @ ''/'' @ c"

subsection \<open>GetBillingPeriods (lines 98-138)\<close>

text \<open>The inner loop over the common prefixes of one page (lines 118-128).\<close>

fun parsePrefixes ::
  "env \<Rightarrow> string \<Rightarrow> string list \<Rightarrow> BillingPeriod list \<Rightarrow> error + BillingPeriod list" where
  "parsePrefixes E pre [] periods = Inr periods"
| "parsePrefixes E pre (obj # objs) periods =
     (case ParseBillingPeriod E (TrimSuffix (TrimPrefix obj pre) ''/'') of
        Inl err \<Rightarrow> Inl err
      | Inr period \<Rightarrow> parsePrefixes E pre objs (periods @ [period]))"

text \<open>The loop over the pages (lines 112-129); one request per page.\<close>

fun listPeriods ::
  "env \<Rightarrow> string \<Rightarrow> (error + string list) list \<Rightarrow> BillingPeriod list \<Rightarrow> world
     \<Rightarrow> world \<times> (error + BillingPeriod list)" where
  "listPeriods E pre [] periods w = (w, Inr periods)"
| "listPeriods E pre (page # pages) periods w =
     (case page of
        Inl err \<Rightarrow> (emit EvListPage w, Inl err)
      | Inr objs \<Rightarrow>
          (case parsePrefixes E pre objs periods of
             Inl err \<Rightarrow> (emit EvListPage w, Inl err)
           | Inr periods' \<Rightarrow> listPeriods E pre pages periods' (emit EvListPage w)))"

definition GetBillingPeriods ::
  "env \<Rightarrow> Config \<Rightarrow> world \<Rightarrow> world \<times> (error + BillingPeriod list)" where
  "GetBillingPeriods E config w =
     (case RefreshClient E ForPeriods of
        Some err \<Rightarrow> (w, Inl err)
      | None \<Rightarrow>
          (let pre = ''/'' @ ReportName config @ ''/'' in
           case listPeriods E pre (ListPages E (BucketName config) pre) [] w of
             (w', Inl err) \<Rightarrow> (w', Inl err)
           | (w', Inr periods) \<Rightarrow>
               (let sorted = sort periods in
                if length sorted > 3
                then (w', Inr (drop (length sorted - 3) sorted))
                else (w', Inr sorted))))"

subsection \<open>GetReportManifest (lines 140-191)\<close>

text \<open>
  The object store's conditional retrieval (\<^verbatim>\<open>IfModifiedSince\<close>): an object that was not
  modified after the given instant is answered by the API error \<^verbatim>\<open>NotModified\<close>.
\<close>

definition GetObject_IfModifiedSince ::
  "(error + manifest_object) \<Rightarrow> time \<Rightarrow> error + manifest_object" where
  "GetObject_IfModifiedSince stored since =
     (case stored of
        Inl err \<Rightarrow> Inl err
      | Inr obj \<Rightarrow>
          if LastModified obj \<le> since then Inl (APIError ''NotModified'') else Inr obj)"

definition manifestKey :: "Config \<Rightarrow> BillingPeriod \<Rightarrow> string" where
  "manifestKey config period =
     ''/'' @ ReportName config @ ''/'' @ period @ ''/'' @ ReportName config @ ''-Manifest.json''"

text \<open>
  The result is the world, the value of \<^verbatim>\<open>*lastModified\<close> after the call, and the pair
  the Go function returns. \<^verbatim>\<open>*lastModified\<close> is written at line 170, before the body is
  decoded. When the decoded pointer is \<^verbatim>\<open>nil\<close>, \<^verbatim>\<open>manifest.ContentType\<close> at line 178
  dereferences it and the call panics.
\<close>

definition GetReportManifest ::
  "env \<Rightarrow> Config \<Rightarrow> world \<Rightarrow> BillingPeriod \<Rightarrow> time
     \<Rightarrow> world \<times> time \<times> (ReportManifest option \<times> error option) outcome" where
  "GetReportManifest E config w period lastModified =
     (case RefreshClient E ForManifest of
        Some err \<Rightarrow> (w, lastModified, Return (None, Some err))
      | None \<Rightarrow>
          (let w1 = emit (EvGetManifest period) w in
           case GetObject_IfModifiedSince
                  (Manifests E (BucketName config) (manifestKey config period)) lastModified of
             Inl err \<Rightarrow>
               (case err of
                  APIError code \<Rightarrow>
                    if code = ''NotModified'' then (w1, lastModified, Return (None, None))
                    else (w1, lastModified, Return (None, Some err))
                | _ \<Rightarrow> (w1, lastModified, Return (None, Some err)))
           | Inr obj \<Rightarrow>
               (case Body obj of
                  Inl err \<Rightarrow> (w1, LastModified obj, Return (None, Some err))
                | Inr None \<Rightarrow> (w1, LastModified obj, Panic)
                | Inr (Some manifest) \<Rightarrow>
                    if ContentType manifest \<noteq> ''text/csv'' then
                      (w1, LastModified obj,
                       Return (None,
                         Some (Errorf (''report manifest contains unknown content type: ''
                                        @ ContentType manifest))))
                    else if Bucket manifest \<noteq> BucketName config then
                      (w1, LastModified obj,
                       Return (None,
                         Some (Errorf (''report manifest contains unexpected bucket name: ''
                                        @ Bucket manifest))))
                    else if length (ReportKeys manifest) = 0 then
                      (w1, LastModified obj,
                       Return (None, Some (Errorf ''report manifest contains no report keys'')))
                    else (w1, LastModified obj, Return (Some manifest, None)))))"

subsection \<open>FetchReport (lines 193-314)\<close>

text \<open>
  The header names in the order of the arguments of \<^verbatim>\<open>stmt.Exec\<close> (lines 287-297), which is
  the order of the columns of the \<^verbatim>\<open>insert\<close> statement.
\<close>

definition exec_columns :: "string list" where
  "exec_columns =
     [''bill/BillingPeriodStartDate'', ''bill/BillingPeriodEndDate'', ''product/ProductName'',
      ''lineItem/Operation'', ''lineItem/UnblendedCost'', ''lineItem/UsageAccountId'',
      ''lineItem/LineItemType'', ''lineItem/UsageType'', ''lineItem/UsageAmount'',
      ''pricing/unit'', ''lineItem/CurrencyCode'']"

text \<open>
  The loop over the records of one part (lines 271-301), inside the transaction: \<open>tx\<close> is the
  list of rows inserted so far. The debug log evaluates \<^verbatim>\<open>record[lineItem_UsageAccountId]\<close>
  first (line 277), then come \<^verbatim>\<open>tx.Prepare\<close> and the eleven index expressions of
  \<^verbatim>\<open>stmt.Exec\<close>.
\<close>

fun insertRecords ::
  "env \<Rightarrow> int list \<Rightarrow> int \<Rightarrow> string list list \<Rightarrow> table \<Rightarrow> (error + table) outcome" where
  "insertRecords E idxs acct [] tx = Return (Inr tx)"
| "insertRecords E idxs acct (record # records) tx =
     (case at record acct of
        None \<Rightarrow> Panic
      | Some _ \<Rightarrow>
          (case sql_Prepare E record of
             Some err \<Rightarrow> Return (Inl err)
           | None \<Rightarrow>
               (case those (map (at record) idxs) of
                  None \<Rightarrow> Panic
                | Some vals \<Rightarrow>
                    (case sql_Exec E vals of
                       Some err \<Rightarrow> Return (Inl err)
                     | None \<Rightarrow> insertRecords E idxs acct records (tx @ [vals])))))"

datatype part_result = Done | Failed error | Panicked

definition reportFile :: "Config \<Rightarrow> ReportManifest \<Rightarrow> string \<Rightarrow> nat \<Rightarrow> string" where
  "reportFile config manifest periodStart reportPart =
     filepath_Join (RepositoryPath config) ''data''
       (periodStart @ ''-'' @ AssemblyId manifest @ ''-'' @ FormatInt reportPart @ ''.csv'')"

text \<open>
  One iteration of the loop over the report keys (lines 203-312). The rows of the part go
  into a transaction that begins at line 266; the marker file is created at line 303, the
  transaction is committed at line 309, and every other way out of the iteration leaves the
  transaction to the deferred \<^verbatim>\<open>tx.Rollback()\<close>.
\<close>

definition fetchPart ::
  "env \<Rightarrow> Config \<Rightarrow> ReportManifest \<Rightarrow> string \<Rightarrow> world \<Rightarrow> nat \<Rightarrow> string
     \<Rightarrow> world \<times> part_result" where
  "fetchPart E config manifest periodStart w reportPart reportKey =
     (let file = reportFile config manifest periodStart reportPart in
      if file \<in> set (files w) \<or> os_Stat_error E file then (w, Done)
      else
        (let w1 = emit (EvGetPart reportKey) w in
         case Parts E (Bucket manifest) reportKey of
           Inl err \<Rightarrow> (w1, Failed err)
         | Inr obj \<Rightarrow>
         (case gzip_NewReader obj of
           Some err \<Rightarrow> (w1, Failed err)
         | None \<Rightarrow>
         (case csv_header obj of
           Inl err \<Rightarrow> (w1, Failed err)
         | Inr header \<Rightarrow>
         (case sql_Open E reportPart of
           Some err \<Rightarrow> (w1, Failed err)
         | None \<Rightarrow>
         (case sql_BeginTx E reportPart of
           Some err \<Rightarrow> (w1, Failed err)
         | None \<Rightarrow>
         (case insertRecords E (map (index header) exec_columns)
                 (index header ''lineItem/UsageAccountId'') (csv_records obj) [] of
           Panic \<Rightarrow> (w1, Panicked)
         | Return (Inl err) \<Rightarrow> (w1, Failed err)
         | Return (Inr rows) \<Rightarrow>
         (case os_Create E file of
           Some err \<Rightarrow> (w1, Failed err)
         | None \<Rightarrow>
         (let w2 = w1\<lparr>files := file # files w1\<rparr> in
          case sql_Commit E reportPart of
            Some err \<Rightarrow> (w2, Failed err)
          | None \<Rightarrow> (w2\<lparr>db := db w2 @ rows\<rparr>, Done))))))))))"

fun fetchParts ::
  "env \<Rightarrow> Config \<Rightarrow> ReportManifest \<Rightarrow> string \<Rightarrow> world \<Rightarrow> nat \<Rightarrow> string list
     \<Rightarrow> world \<times> error option outcome" where
  "fetchParts E config manifest periodStart w reportPart [] = (w, Return None)"
| "fetchParts E config manifest periodStart w reportPart (reportKey # reportKeys) =
     (case fetchPart E config manifest periodStart w reportPart reportKey of
        (w', Done) \<Rightarrow> fetchParts E config manifest periodStart w' (Suc reportPart) reportKeys
      | (w', Failed err) \<Rightarrow> (w', Return (Some err))
      | (w', Panicked) \<Rightarrow> (w', Panic))"

definition FetchReport ::
  "env \<Rightarrow> Config \<Rightarrow> world \<Rightarrow> ReportManifest \<Rightarrow> world \<times> error option outcome" where
  "FetchReport E config w manifest =
     (case RefreshClient E ForReport of
        Some err \<Rightarrow> (w, Return (Some err))
      | None \<Rightarrow>
          (case time_Parse_Format E (BillingPeriod_Start manifest) of
             Inl err \<Rightarrow> (w, Return (Some err))
           | Inr periodStart \<Rightarrow>
               fetchParts E config manifest periodStart w 0 (ReportKeys manifest)))"

section \<open>Package collector (pkg/collector/main.go)\<close>

subsection \<open>UpdateReport (lines 35-71)\<close>

text \<open>
  \<^verbatim>\<open>lastModified\<close> is a local copy of the map entry (the zero instant when there is none);
  \<^verbatim>\<open>GetReportManifest\<close> writes through the pointer to the copy, and the map is assigned
  only at line 68. A panic of \<^verbatim>\<open>GetReportManifest\<close> passes through.
  \<^verbatim>\<open>fetcher.ResetSqlite\<close> is the parameter of that name.
\<close>

definition UpdateReport ::
  "env \<Rightarrow> Config \<Rightarrow> world \<Rightarrow> State \<Rightarrow> BillingPeriod
     \<Rightarrow> world \<times> State \<times> (bool \<times> error option) outcome" where
  "UpdateReport E config w state period =
     (let lastModified =
            (case ReportLastModified state period of Some t \<Rightarrow> t | None \<Rightarrow> 0) in
      case GetReportManifest E config w period lastModified of
        (w1, lastModified', Panic) \<Rightarrow> (w1, state, Panic)
      | (w1, lastModified', Return (_, Some err)) \<Rightarrow> (w1, state, Return (False, Some err))
      | (w1, lastModified', Return (None, None)) \<Rightarrow> (w1, state, Return (False, None))
      | (w1, lastModified', Return (Some manifest, None)) \<Rightarrow>
          (let w2 = emit EvResetSqlite w1 in
           case ResetSqlite E (db w2) of
             (table, Some err) \<Rightarrow> (w2\<lparr>db := table\<rparr>, state, Return (False, Some err))
           | (table, None) \<Rightarrow>
               (case FetchReport E config (w2\<lparr>db := table\<rparr>) manifest of
                  (w3, Panic) \<Rightarrow> (w3, state, Panic)
                | (w3, Return (Some err)) \<Rightarrow> (w3, state, Return (False, Some err))
                | (w3, Return None) \<Rightarrow>
                    (w3,
                     state\<lparr>ReportLastModified :=
                             (ReportLastModified state)(period \<mapsto> lastModified')\<rparr>,
                     Return (True, None)))))"

subsection \<open>Prefetch (lines 14-33)\<close>

text \<open>The loop at index \<open>i\<close> of a slice of length \<open>n\<close>.\<close>

fun Prefetch_from ::
  "env \<Rightarrow> Config \<Rightarrow> nat \<Rightarrow> world \<Rightarrow> State \<Rightarrow> nat \<Rightarrow> BillingPeriod list
     \<Rightarrow> world \<times> State \<times> error option outcome" where
  "Prefetch_from E config n w state i [] = (w, state, Return None)"
| "Prefetch_from E config n w state i (period # periods) =
     (let isLast = (int i = int n - 1);
          isCached = (ReportLastModified state period \<noteq> None) in
      if \<not> isCached \<or> isLast then
        (case UpdateReport E config w state period of
           (w', state', Panic) \<Rightarrow> (w', state', Panic)
         | (w', state', Return (_, Some err)) \<Rightarrow> (w', state', Return (Some err))
         | (w', state', Return (_, None)) \<Rightarrow>
             Prefetch_from E config n w' state' (Suc i) periods)
      else Prefetch_from E config n w state (Suc i) periods)"

definition Prefetch ::
  "env \<Rightarrow> Config \<Rightarrow> world \<Rightarrow> State \<Rightarrow> BillingPeriod list
     \<Rightarrow> world \<times> State \<times> error option outcome" where
  "Prefetch E config w state periods =
     Prefetch_from E config (length periods) w state 0 periods"

section \<open>The command (part_000)\<close>

text \<open>
  Modelled from the spec: \<^verbatim>\<open>state.Save\<close> is not among the sources. It writes the full
  state to durable storage or fails, and a failed save leaves the stored state as it was
  (spec 4.5). Whether it fails is the parameter \<^const>\<open>Save\<close>.
\<close>

definition state_Save :: "env \<Rightarrow> State \<Rightarrow> world \<Rightarrow> world \<times> error option" where
  "state_Save E state w =
     (case Save E state of
        Some err \<Rightarrow> (emit EvSave w, Some err)
      | None \<Rightarrow> (emit EvSave (w\<lparr>disk := Some state\<rparr>), None))"

text \<open>
  Modelled from the spec: \<^verbatim>\<open>processor.Compute\<close> is not among the sources. It computes
  the metric samples from the stored records and publishes them in the registry, or fails
  and publishes nothing (spec 4.6). Its result on a table is the parameter \<^const>\<open>Compute\<close>.
\<close>

definition processor_Compute :: "env \<Rightarrow> world \<Rightarrow> world \<times> error option" where
  "processor_Compute E w =
     (case Compute E (db w) of
        Inl err \<Rightarrow> (emit EvCompute w, Some err)
      | Inr m \<Rightarrow> (emit EvCompute (w\<lparr>registry := m\<rparr>), None))"

text \<open>\<^verbatim>\<open>reg.Gather()\<close> (line 100): the metrics of the registry.\<close>

definition reg_Gather :: "world \<Rightarrow> world \<times> (error + metrics) outcome" where
  "reg_Gather w = (emit EvGather w, Return (Inr (registry w)))"

subsection \<open>The gatherer function (lines 64-101)\<close>

text \<open>
  Lines 66-76: the most recent known period, after a new resolution of the periods when
  it is past due. \<^verbatim>\<open>periods[len(periods)-1]\<close> panics on an empty resolution.
\<close>

definition currentPeriod ::
  "env \<Rightarrow> Config \<Rightarrow> world \<Rightarrow> State
     \<Rightarrow> world \<times> State \<times> (error + BillingPeriod) outcome" where
  "currentPeriod E config w state =
     (let period = last (Periods state) in
      if IsPastDue E period then
        (case GetBillingPeriods E config w of
           (w', Inl err) \<Rightarrow> (w', state, Return (Inl err))
         | (w', Inr periods) \<Rightarrow>
             (let state' = state\<lparr>Periods := periods\<rparr> in
              if periods = [] then (w', state', Panic)
              else (w', state', Return (Inr (last periods)))))
      else (w, state, Return (Inr period)))"

text \<open>Lines 85-97 and 100: after an update that reported \<open>changed\<close> without error.\<close>

definition publish ::
  "env \<Rightarrow> world \<Rightarrow> State \<Rightarrow> bool \<Rightarrow> world \<times> (error + metrics) outcome" where
  "publish E w state changed =
     (if changed then
        (case state_Save E state w of
           (w1, Some err) \<Rightarrow> (w1, Return (Inl err))
         | (w1, None) \<Rightarrow>
             (case processor_Compute E w1 of
                (w2, Some err) \<Rightarrow> (w2, Return (Inl err))
              | (w2, None) \<Rightarrow> reg_Gather w2))
      else reg_Gather w)"

definition gatherer ::
  "env \<Rightarrow> Config \<Rightarrow> world \<Rightarrow> State \<Rightarrow> world \<times> State \<times> (error + metrics) outcome" where
  "gatherer E config w state =
     (if length (Periods state) > 0 then
        (case currentPeriod E config w state of
           (w1, state1, Panic) \<Rightarrow> (w1, state1, Panic)
         | (w1, state1, Return (Inl err)) \<Rightarrow> (w1, state1, Return (Inl err))
         | (w1, state1, Return (Inr period)) \<Rightarrow>
             (case UpdateReport E config w1 state1 period of
                (w2, state2, Panic) \<Rightarrow> (w2, state2, Panic)
              | (w2, state2, Return (changed, Some err)) \<Rightarrow> (w2, state2, Return (Inl err))
              | (w2, state2, Return (changed, None)) \<Rightarrow>
                  (case publish E w2 state2 changed of (w3, out) \<Rightarrow> (w3, state2, out))))
      else (case reg_Gather w of (w', out) \<Rightarrow> (w', state, out)))"

subsection \<open>Startup: newGatherer up to the construction of the gatherer (lines 42-62)\<close>

definition newGatherer ::
  "env \<Rightarrow> Config \<Rightarrow> world \<Rightarrow> State \<Rightarrow> world \<times> State \<times> error option outcome" where
  "newGatherer E config w state =
     (case GetBillingPeriods E config w of
        (w1, Inl err) \<Rightarrow> (w1, state, Return (Some err))
      | (w1, Inr periods) \<Rightarrow>
          (let state1 = state\<lparr>Periods := periods\<rparr> in
           case Prefetch E config w1 state1 periods of
             (w2, state2, Panic) \<Rightarrow> (w2, state2, Panic)
           | (w2, state2, Return (Some err)) \<Rightarrow> (w2, state2, Return (Some err))
           | (w2, state2, Return None) \<Rightarrow>
               (case state_Save E state2 w2 of
                  (w3, Some err) \<Rightarrow> (w3, state2, Return (Some err))
                | (w3, None) \<Rightarrow>
                    (case processor_Compute E w3 of
                       (w4, err) \<Rightarrow> (w4, state2, Return err)))))"

section \<open>Concrete inputs\<close>

text \<open>
  A bucket \<^verbatim>\<open>billing\<close> with the report \<^verbatim>\<open>cur\<close>: four billing periods listed on two
  pages under the names the object store gives them (\<^verbatim>\<open>20240101-20240201\<close>), a manifest of
  two parts, and a header whose columns are in another order than the table's. The parser
  given for \<^const>\<open>ParseBillingPeriod\<close> accepts the names of seventeen characters, and
  \<^const>\<open>ResetSqlite\<close> empties the table.
\<close>

definition config0 :: Config where
  "config0 = \<lparr>RepositoryPath = ''/repo'', DatabasePath = ''/db.sqlite'',
      QueriesPath = ''/queries'', StateFilePath = ''/state.json'',
      BucketName = ''billing'', ReportName = ''cur'', ChainedRole = ''''\<rparr>"

definition manifest0 :: ReportManifest where
  "manifest0 = \<lparr>AssemblyId = ''a1'', Compression = ''GZIP'', ContentType = ''text/csv'',
      BillingPeriod_Start = ''20240101T000000.000Z'',
      BillingPeriod_End = ''20240201T000000.000Z'',
      Bucket = ''billing'', ReportKeys = [''part-0'', ''part-1'']\<rparr>"

definition header0 :: "string list" where
  "header0 = [''identity/LineItemId'', ''bill/BillingPeriodStartDate'',
      ''bill/BillingPeriodEndDate'', ''lineItem/UsageAccountId'', ''lineItem/LineItemType'',
      ''lineItem/UsageType'', ''lineItem/Operation'', ''lineItem/UsageAmount'',
      ''lineItem/CurrencyCode'', ''lineItem/UnblendedCost'', ''product/ProductName'',
      ''pricing/unit'']"

definition record0 :: "string list" where
  "record0 = [''id1'', ''2024-01-01'', ''2024-02-01'', ''1234'', ''Usage'', ''BoxUsage'',
      ''RunInstances'', ''2'', ''USD'', ''0.5'', ''EC2'', ''Hrs'']"

definition record1 :: "string list" where
  "record1 = [''id2'', ''2024-01-01'', ''2024-02-01'', ''1234'', ''Usage'', ''Requests'',
      ''GetObject'', ''7'', ''USD'', ''0.1'', ''S3'', ''Count'']"

definition row0 :: "string list" where
  "row0 = [''2024-01-01'', ''2024-02-01'', ''EC2'', ''RunInstances'', ''0.5'', ''1234'',
      ''Usage'', ''BoxUsage'', ''2'', ''Hrs'', ''USD'']"

definition row1 :: "string list" where
  "row1 = [''2024-01-01'', ''2024-02-01'', ''S3'', ''GetObject'', ''0.1'', ''1234'',
      ''Usage'', ''Requests'', ''7'', ''Count'', ''USD'']"

definition part0 :: part_object where
  "part0 = \<lparr>gzip_NewReader = None, csv_header = Inr header0, csv_records = [record0]\<rparr>"

definition part1 :: part_object where
  "part1 = \<lparr>gzip_NewReader = None, csv_header = Inr header0,
      csv_records = [record0, record1]\<rparr>"

definition env0 :: env where
  "env0 = \<lparr>RefreshClient = (\<lambda>_. None),
      ListPages = (\<lambda>bucket pre.
         [Inr [''/cur/20240101-20240201/'', ''/cur/20231101-20231201/''],
          Inr [''/cur/20231201-20240101/'', ''/cur/20231001-20231101/'']]),
      ParseBillingPeriod =
         (\<lambda>s. if length s = 17 then Inr s else Inl (LibError ''malformed period'')),
      IsPastDue = (\<lambda>_. False),
      Manifests = (\<lambda>bucket key. Inr \<lparr>LastModified = 100, Body = Inr (Some manifest0)\<rparr>),
      Parts = (\<lambda>bucket key. if key = ''part-0'' then Inr part0 else Inr part1),
      time_Parse_Format = (\<lambda>s. Inr (take 8 s)),
      os_Stat_error = (\<lambda>_. False),
      sql_Open = (\<lambda>_. None),
      sql_BeginTx = (\<lambda>_. None),
      sql_Prepare = (\<lambda>_. None),
      sql_Exec = (\<lambda>_. None),
      os_Create = (\<lambda>_. None),
      sql_Commit = (\<lambda>_. None),
      ResetSqlite = (\<lambda>_. ([], None)),
      Save = (\<lambda>_. None),
      Compute = (\<lambda>t. Inr t)\<rparr>"

definition world0 :: world where
  "world0 = \<lparr>db = [[''old'']], files = [], disk = None, registry = [], trace = []\<rparr>"

definition state0 :: State where
  "state0 = \<lparr>Periods = [''20231201-20240101'', ''20240101-20240201''],
       ReportLastModified = [''20231201-20240101'' \<mapsto> 50]\<rparr>"

text \<open>The manifest names another bucket than the configured one.\<close>

definition env_untrusted :: env where
  "env_untrusted = env0\<lparr>Manifests :=
      (\<lambda>bucket key.
         Inr \<lparr>LastModified = 100,
              Body = Inr (Some (manifest0\<lparr>Bucket := ''elsewhere''\<rparr>))\<rparr>)\<rparr>"

text \<open>The body of the manifest object is the JSON literal \<^verbatim>\<open>null\<close>.\<close>

definition env_null :: env where
  "env_null = env0\<lparr>Manifests :=
      (\<lambda>bucket key. Inr \<lparr>LastModified = 100, Body = Inr None\<rparr>)\<rparr>"

text \<open>SQLite accepts the row \<^const>\<open>row0\<close> and fails on every other row.\<close>

definition env_failing :: env where
  "env_failing = env0\<lparr>sql_Exec :=
      (\<lambda>vals. if vals = row0 then None else Some (LibError ''disk I/O error''))\<rparr>"

text \<open>The header lacks the column \<^verbatim>\<open>lineItem/UsageAccountId\<close>.\<close>

definition header_missing :: "string list" where
  "header_missing = [''identity/LineItemId'', ''bill/BillingPeriodStartDate'',
      ''bill/BillingPeriodEndDate'', ''lineItem/LineItemType'',
      ''lineItem/UsageType'', ''lineItem/Operation'', ''lineItem/UsageAmount'',
      ''lineItem/CurrencyCode'', ''lineItem/UnblendedCost'', ''product/ProductName'',
      ''pricing/unit'']"

definition env_missing :: env where
  "env_missing = env0\<lparr>Parts := (\<lambda>bucket key.
      Inr \<lparr>gzip_NewReader = None, csv_header = Inr header_missing,
           csv_records = [[''id1'', ''2024-01-01'', ''2024-02-01'', ''Usage'', ''BoxUsage'',
              ''RunInstances'', ''2'', ''USD'', ''0.5'', ''EC2'', ''Hrs'']]\<rparr>)\<rparr>"

definition env_missing_norows :: env where
  "env_missing_norows = env0\<lparr>Parts := (\<lambda>bucket key.
      Inr \<lparr>gzip_NewReader = None, csv_header = Inr header_missing, csv_records = []\<rparr>)\<rparr>"

text \<open>The listing holds a prefix that is no billing period.\<close>

definition env_malformed :: env where
  "env_malformed = env0\<lparr>ListPages := (\<lambda>bucket pre.
      [Inr [''/cur/20240101-20240201/'', ''/cur/lost+found/'']])\<rparr>"

section \<open>Reading the effects\<close>

text \<open>The periods whose manifest was requested, in the order of the requests.\<close>

fun manifestChecks :: "event list \<Rightarrow> BillingPeriod list" where
  "manifestChecks [] = []"
| "manifestChecks (EvGetManifest period # es) = period # manifestChecks es"
| "manifestChecks (_ # es) = manifestChecks es"

section \<open>The period model\<close>

text \<open>
  Modelled from the spec: \<^verbatim>\<open>state.ParseBillingPeriod\<close> and the canonical form of a period
  are not among the sources. By spec 3 and 4.1 a billing period is a start and an end date,
  its canonical representation is a sortable string that encodes them with fixed-width date
  components (the scenario of spec 8 writes \<^verbatim>\<open>2024-01-01-2024-02-01\<close>), and \<^verbatim>\<open>parse\<close> yields
  the period or fails with \<^verbatim>\<open>MalformedPeriod\<close>. A period is the string type the code has:
  \<^verbatim>\<open>parse\<close> reads the two dates of the raw string and builds the canonical string from
  them, \<^verbatim>\<open>canonicalForm\<close> is the conversion \<^verbatim>\<open>string(period)\<close>. The parser checks the
  shape only; a parser that also checks the calendar accepts fewer strings.
\<close>

definition is_digit :: "char \<Rightarrow> bool" where
  "is_digit c \<longleftrightarrow> c \<in> set ''0123456789''"

definition digit_value :: "char \<Rightarrow> nat" where
  "digit_value c = of_char c - 48"

definition number :: "string \<Rightarrow> nat" where
  "number ds = foldl (\<lambda>n c. 10 * n + digit_value c) 0 ds"

fun fixed_width :: "nat \<Rightarrow> nat \<Rightarrow> string" where
  "fixed_width 0 n = []"
| "fixed_width (Suc k) n = fixed_width k (n div 10) @ [''0123456789'' ! (n mod 10)]"

record date =
  year :: nat
  month :: nat
  day :: nat

fun parse_date :: "string \<Rightarrow> date option" where
  "parse_date [y1, y2, y3, y4, s1, m1, m2, s2, d1, d2] =
     (if s1 = CHR ''-'' \<and> s2 = CHR ''-'' \<and> list_all is_digit [y1, y2, y3, y4, m1, m2, d1, d2]
      then Some \<lparr>year = number [y1, y2, y3, y4], month = number [m1, m2], day = number [d1, d2]\<rparr>
      else None)"
| "parse_date _ = None"

definition format_date :: "date \<Rightarrow> string" where
  "format_date d =
     fixed_width 4 (year d) @ ''-'' @ fixed_width 2 (month d) @ ''-'' @ fixed_width 2 (day d)"

definition parse :: "string \<Rightarrow> error + BillingPeriod" where
  "parse raw =
     (if length raw = 21 \<and> raw ! 10 = CHR ''-'' then
        (case (parse_date (take 10 raw), parse_date (drop 11 raw)) of
           (Some start, Some finish) \<Rightarrow> Inr (format_date start @ ''-'' @ format_date finish)
         | _ \<Rightarrow> Inl (Errorf ''MalformedPeriod''))
      else Inl (Errorf ''MalformedPeriod''))"

definition canonicalForm :: "BillingPeriod \<Rightarrow> string" where
  "canonicalForm period = period"

section \<open>Lemmas\<close>

lemmas example_defs = config0_def manifest0_def header0_def record0_def record1_def
  row0_def row1_def part0_def part1_def env0_def world0_def state0_def

lemmas run_defs = UpdateReport_def GetReportManifest_def GetObject_IfModifiedSince_def
  manifestKey_def FetchReport_def fetchPart_def reportFile_def filepath_Join_def
  FormatInt.simps exec_columns_def index_def at_def emit_def

subsection \<open>The manifest fetch\<close>

lemma GetReportManifest_NotModified:
  assumes "RefreshClient E ForManifest = None"
    and "Manifests E (BucketName config) (manifestKey config period) = Inr obj"
    and "LastModified obj \<le> since"
  shows "GetReportManifest E config w period since
           = (emit (EvGetManifest period) w, since, Return (None, None))"
  using assms by (simp add: GetReportManifest_def GetObject_IfModifiedSince_def)

lemma GetReportManifest_result:
  "GetReportManifest E config w period since = (w', lm, Return (res, err)) \<Longrightarrow>
     (w' = w \<or> w' = emit (EvGetManifest period) w) \<and>
     (err = None \<longrightarrow> w' = emit (EvGetManifest period) w) \<and>
     (res \<noteq> None \<longrightarrow> err = None \<and> since < lm)"
  by (auto simp add: GetReportManifest_def GetObject_IfModifiedSince_def Let_def
      split: option.splits sum.splits error.splits if_splits)

lemma GetReportManifest_panic:
  "GetReportManifest E config w period since = (w', lm, Panic) \<Longrightarrow>
     w' = emit (EvGetManifest period) w"
  by (auto simp add: GetReportManifest_def GetObject_IfModifiedSince_def Let_def
      split: option.splits sum.splits error.splits if_splits)

subsection \<open>The loop over the parts\<close>

lemma fetchPart_manifest [simp]:
  "fetchPart E config (manifest\<lparr>ReportKeys := ks\<rparr>) periodStart w i key
     = fetchPart E config manifest periodStart w i key"
  by (simp add: fetchPart_def reportFile_def Let_def)

lemma fetchParts_manifest [simp]:
  "fetchParts E config (manifest\<lparr>ReportKeys := ks\<rparr>) periodStart w i keys
     = fetchParts E config manifest periodStart w i keys"
  by (induction keys arbitrary: w i) simp_all

lemma fetchPart_effect:
  assumes "fetchPart E config manifest periodStart w i key = (w', r)"
  shows "(r \<noteq> Done \<longrightarrow> db w' = db w)"
    and "\<exists>rows. db w' = db w @ rows"
    and "trace w' = trace w \<or> trace w' = trace w @ [EvGetPart key]"
  using assms
  by (auto simp add: fetchPart_def Let_def emit_def
      split: if_splits sum.splits option.splits outcome.splits)

lemma fetchParts_appends:
  "fetchParts E config manifest periodStart w i keys = (w', out) \<Longrightarrow>
     \<exists>rows. db w' = db w @ rows"
proof (induction keys arbitrary: w i)
  case Nil
  then show ?case by simp
next
  case (Cons key keys)
  obtain w1 r where p: "fetchPart E config manifest periodStart w i key = (w1, r)"
    by (cases "fetchPart E config manifest periodStart w i key")
  from fetchPart_effect(2)[OF p] obtain rows1 where r1: "db w1 = db w @ rows1" by blast
  show ?case
  proof (cases r)
    case Done
    with Cons.prems p have "fetchParts E config manifest periodStart w1 (Suc i) keys = (w', out)"
      by simp
    from Cons.IH[OF this] r1 show ?thesis by auto
  next
    case (Failed e)
    with Cons.prems p r1 show ?thesis by auto
  next
    case Panicked
    with Cons.prems p r1 show ?thesis by auto
  qed
qed

lemma fetchParts_trace:
  "fetchParts E config manifest periodStart w i keys = (w', out) \<Longrightarrow>
     \<exists>ks. trace w' = trace w @ map EvGetPart ks"
proof (induction keys arbitrary: w i)
  case Nil
  then show ?case by simp
next
  case (Cons key keys)
  obtain w1 r where p: "fetchPart E config manifest periodStart w i key = (w1, r)"
    by (cases "fetchPart E config manifest periodStart w i key")
  from fetchPart_effect(3)[OF p] obtain ks1 where r1: "trace w1 = trace w @ map EvGetPart ks1"
    by (metis append_Nil2 list.simps(8) list.simps(9))
  show ?case
  proof (cases r)
    case Done
    with Cons.prems p have "fetchParts E config manifest periodStart w1 (Suc i) keys = (w', out)"
      by simp
    from Cons.IH[OF this] obtain ks where "trace w' = trace w1 @ map EvGetPart ks" by blast
    with r1 have "trace w' = trace w @ map EvGetPart (ks1 @ ks)" by simp
    then show ?thesis by blast
  next
    case (Failed e)
    with Cons.prems p r1 show ?thesis by auto
  next
    case Panicked
    with Cons.prems p r1 show ?thesis by auto
  qed
qed

lemma fetchParts_error:
  "fetchParts E config manifest periodStart w i keys = (w', Return (Some err)) \<Longrightarrow>
     \<exists>k wk. k < length keys
        \<and> fetchParts E config manifest periodStart w i (take k keys) = (wk, Return None)
        \<and> db w' = db wk"
proof (induction keys arbitrary: w i)
  case Nil
  then show ?case by simp
next
  case (Cons key keys)
  obtain w1 r where p: "fetchPart E config manifest periodStart w i key = (w1, r)"
    by (cases "fetchPart E config manifest periodStart w i key")
  show ?case
  proof (cases r)
    case Done
    with Cons.prems p
    have "fetchParts E config manifest periodStart w1 (Suc i) keys = (w', Return (Some err))"
      by simp
    from Cons.IH[OF this] obtain k wk where k: "k < length keys"
      "fetchParts E config manifest periodStart w1 (Suc i) (take k keys) = (wk, Return None)"
      "db w' = db wk" by blast
    with p Done have "Suc k < length (key # keys)
        \<and> fetchParts E config manifest periodStart w i (take (Suc k) (key # keys)) = (wk, Return None)
        \<and> db w' = db wk" by simp
    then show ?thesis by blast
  next
    case (Failed e)
    with Cons.prems p have "w' = w1" by simp
    with fetchPart_effect(1)[OF p] Failed have "db w' = db w" by simp
    then have "0 < length (key # keys)
        \<and> fetchParts E config manifest periodStart w i (take 0 (key # keys)) = (w, Return None)
        \<and> db w' = db w" by simp
    then show ?thesis by blast
  next
    case Panicked
    with Cons.prems p show ?thesis by simp
  qed
qed

subsection \<open>UpdateReport\<close>

lemma UpdateReport_panic:
  "GetReportManifest E config w period
     (case ReportLastModified state period of Some t \<Rightarrow> t | None \<Rightarrow> 0) = (w1, lm, Panic)
   \<Longrightarrow> UpdateReport E config w state period = (w1, state, Panic)"
  by (simp add: UpdateReport_def)

lemma UpdateReport_err:
  "GetReportManifest E config w period
     (case ReportLastModified state period of Some t \<Rightarrow> t | None \<Rightarrow> 0)
     = (w1, lm, Return (res, Some e))
   \<Longrightarrow> UpdateReport E config w state period = (w1, state, Return (False, Some e))"
  by (simp add: UpdateReport_def split: option.splits)

lemma UpdateReport_absent:
  "GetReportManifest E config w period
     (case ReportLastModified state period of Some t \<Rightarrow> t | None \<Rightarrow> 0)
     = (w1, lm, Return (None, None))
   \<Longrightarrow> UpdateReport E config w state period = (w1, state, Return (False, None))"
  by (simp add: UpdateReport_def)

lemma UpdateReport_present:
  "GetReportManifest E config w period
     (case ReportLastModified state period of Some t \<Rightarrow> t | None \<Rightarrow> 0)
     = (w1, lm, Return (Some manifest, None))
   \<Longrightarrow> ResetSqlite E (db (emit EvResetSqlite w1)) = (table, rerr)
   \<Longrightarrow> FetchReport E config ((emit EvResetSqlite w1)\<lparr>db := table\<rparr>) manifest = (w3, fo)
   \<Longrightarrow> UpdateReport E config w state period =
        (case rerr of
           Some e \<Rightarrow> ((emit EvResetSqlite w1)\<lparr>db := table\<rparr>, state, Return (False, Some e))
         | None \<Rightarrow>
             (case fo of
                Panic \<Rightarrow> (w3, state, Panic)
              | Return (Some e) \<Rightarrow> (w3, state, Return (False, Some e))
              | Return None \<Rightarrow>
                  (w3, state\<lparr>ReportLastModified := (ReportLastModified state)(period \<mapsto> lm)\<rparr>,
                   Return (True, None))))"
  by (simp add: UpdateReport_def Let_def split: option.splits outcome.splits)

lemma UpdateReport_state:
  assumes "UpdateReport E config w state period = (w', state', out)"
  shows "(out \<noteq> Return (True, None) \<longrightarrow> state' = state) \<and>
         (out = Return (True, None) \<longrightarrow>
            (\<exists>t. state' = state\<lparr>ReportLastModified := (ReportLastModified state)(period \<mapsto> t)\<rparr>
               \<and> (case ReportLastModified state period of Some t0 \<Rightarrow> t0 | None \<Rightarrow> 0) < t))"
proof -
  let ?lm = "case ReportLastModified state period of Some t \<Rightarrow> t | None \<Rightarrow> 0"
  obtain w1 lm gout where g: "GetReportManifest E config w period ?lm = (w1, lm, gout)"
    by (metis prod_cases3)
  show ?thesis
  proof (cases gout)
    case Panic
    with g assms UpdateReport_panic[of E config w period state w1 lm] show ?thesis by auto
  next
    case (Return x)
    obtain res err where x: "x = (res, err)" by (cases x)
    from g Return x
    have g': "GetReportManifest E config w period ?lm = (w1, lm, Return (res, err))" by simp
    note r = GetReportManifest_result[OF g']
    show ?thesis
    proof (cases err)
      case (Some e)
      with g' assms UpdateReport_err[of E config w period state w1 lm res e] show ?thesis
        by auto
    next
      case None
      show ?thesis
      proof (cases res)
        case None
        with \<open>err = None\<close> g' assms UpdateReport_absent[of E config w period state w1 lm]
        show ?thesis by auto
      next
        case (Some manifest)
        obtain table rerr where rs: "ResetSqlite E (db (emit EvResetSqlite w1)) = (table, rerr)"
          by (cases "ResetSqlite E (db (emit EvResetSqlite w1))")
        obtain w3 fo where
          f: "FetchReport E config ((emit EvResetSqlite w1)\<lparr>db := table\<rparr>) manifest = (w3, fo)"
          by (cases "FetchReport E config ((emit EvResetSqlite w1)\<lparr>db := table\<rparr>) manifest")
        from g' \<open>err = None\<close> Some
        have g'': "GetReportManifest E config w period ?lm
                     = (w1, lm, Return (Some manifest, None))" by simp
        from r Some have "?lm < lm" by simp
        with UpdateReport_present[OF g'' rs f] assms show ?thesis
          by (auto split: option.splits outcome.splits)
      qed
    qed
  qed
qed

text \<open>
  The validation of a decoded manifest (lines 178-190): for a body that decodes to a
  manifest object, an error is returned exactly when the content type is not
  \<^verbatim>\<open>text/csv\<close>, the bucket is not the configured one or there is no report key; no
  manifest is returned with it, and \<^verbatim>\<open>UpdateReport\<close> returns that error having done
  nothing but the request for the manifest.
\<close>

lemma GetReportManifest_validation:
  assumes "RefreshClient E ForManifest = None"
    and "GetObject_IfModifiedSince
           (Manifests E (BucketName config) (manifestKey config period)) lastModified = Inr obj"
    and "Body obj = Inr (Some manifest)"
  shows "\<exists>res err.
      GetReportManifest E config w period lastModified
        = (emit (EvGetManifest period) w, LastModified obj, Return (res, err))
      \<and> (err \<noteq> None \<longleftrightarrow>
           ContentType manifest \<noteq> ''text/csv'' \<or> Bucket manifest \<noteq> BucketName config
           \<or> ReportKeys manifest = [])
      \<and> (err \<noteq> None \<longrightarrow> res = None)
      \<and> (err = None \<longrightarrow> res = Some manifest)
      \<and> (err \<noteq> None
           \<and> lastModified = (case ReportLastModified state period of Some t \<Rightarrow> t | None \<Rightarrow> 0)
          \<longrightarrow> UpdateReport E config w state period
                = (emit (EvGetManifest period) w, state, Return (False, err)))"
  using assms by (auto simp add: GetReportManifest_def UpdateReport_def Let_def)

lemma GetReportManifest_validation_example:
  "UpdateReport env_untrusted config0 world0 state0 ''20240101-20240201''
     = (world0\<lparr>trace := [EvGetManifest ''20240101-20240201'']\<rparr>, state0,
        Return (False,
          Some (Errorf ''report manifest contains unexpected bucket name: elsewhere'')))"
  using GetReportManifest_validation [of env_untrusted config0 "''20240101-20240201''" 0
      "\<lparr>LastModified = 100, Body = Inr (Some (manifest0\<lparr>Bucket := ''elsewhere''\<rparr>))\<rparr>"
      "manifest0\<lparr>Bucket := ''elsewhere''\<rparr>" world0 state0]
  by (simp add: env_untrusted_def example_defs GetObject_IfModifiedSince_def
      GetReportManifest_def manifestKey_def emit_def)

subsection \<open>The listing of the periods\<close>

lemma parsePrefixes_Inr:
  "parsePrefixes E pre objs acc = Inr ps \<Longrightarrow>
     \<exists>names. map (\<lambda>obj. ParseBillingPeriod E (TrimSuffix (TrimPrefix obj pre) ''/'')) objs
                 = map Inr names \<and> ps = acc @ names"
proof (induction objs arbitrary: acc)
  case Nil
  then show ?case by auto
next
  case (Cons obj objs)
  from Cons.prems obtain name where
    name: "ParseBillingPeriod E (TrimSuffix (TrimPrefix obj pre) ''/'') = Inr name"
    and rest: "parsePrefixes E pre objs (acc @ [name]) = Inr ps"
    by (auto split: sum.splits)
  from Cons.IH[OF rest] obtain names where
    "map (\<lambda>obj. ParseBillingPeriod E (TrimSuffix (TrimPrefix obj pre) ''/'')) objs = map Inr names"
    "ps = (acc @ [name]) @ names" by auto
  with name have "map (\<lambda>obj. ParseBillingPeriod E (TrimSuffix (TrimPrefix obj pre) ''/''))
      (obj # objs) = map Inr (name # names) \<and> ps = acc @ (name # names)" by simp
  then show ?case by blast
qed

lemma listPeriods_Inr:
  "snd (listPeriods E pre pages acc w) = Inr ps \<Longrightarrow>
     \<exists>pgs names. pages = map Inr pgs
        \<and> map (\<lambda>obj. ParseBillingPeriod E (TrimSuffix (TrimPrefix obj pre) ''/'')) (concat pgs)
            = map Inr names
        \<and> ps = acc @ names"
proof (induction pages arbitrary: acc w)
  case Nil
  then have "[] = map Inr ([] :: string list list)
      \<and> map (\<lambda>obj. ParseBillingPeriod E (TrimSuffix (TrimPrefix obj pre) ''/'')) (concat [])
          = map Inr [] \<and> ps = acc @ []" by simp
  then show ?case by blast
next
  case (Cons page pages)
  from Cons.prems obtain objs acc' where page: "page = Inr objs"
    and parsed: "parsePrefixes E pre objs acc = Inr acc'"
    and rest: "snd (listPeriods E pre pages acc' (emit EvListPage w)) = Inr ps"
    by (auto split: sum.splits)
  from parsePrefixes_Inr[OF parsed] obtain names1 where
    n1: "map (\<lambda>obj. ParseBillingPeriod E (TrimSuffix (TrimPrefix obj pre) ''/'')) objs
           = map Inr names1" "acc' = acc @ names1" by auto
  from Cons.IH[OF rest] obtain pgs names where h: "pages = map Inr pgs"
    "map (\<lambda>obj. ParseBillingPeriod E (TrimSuffix (TrimPrefix obj pre) ''/'')) (concat pgs)
       = map Inr names" "ps = acc' @ names" by auto
  have "page # pages = map Inr (objs # pgs)" using h(1) page by simp
  moreover have "map (\<lambda>obj. ParseBillingPeriod E (TrimSuffix (TrimPrefix obj pre) ''/''))
      (concat (objs # pgs)) = map Inr (names1 @ names)" using h(2) n1(1) by simp
  moreover have "ps = acc @ (names1 @ names)" using h(3) n1(2) by simp
  ultimately show ?case
    by - (rule exI [of _ "objs # pgs"], rule exI [of _ "names1 @ names"], simp)
qed

lemma listPeriods_result_world:
  "snd (listPeriods E pre pages acc w) = snd (listPeriods E pre pages acc w2)"
  by (induction pages arbitrary: acc w w2) (auto split: sum.splits)


lemma GetBillingPeriods_snd:
  "snd (GetBillingPeriods E config w) =
     (case RefreshClient E ForPeriods of
        Some err \<Rightarrow> Inl err
      | None \<Rightarrow>
          (case snd (listPeriods E (''/'' @ ReportName config @ ''/'')
                      (ListPages E (BucketName config) (''/'' @ ReportName config @ ''/'')) [] w) of
             Inl err \<Rightarrow> Inl err
           | Inr periods \<Rightarrow> Inr (drop (length periods - 3) (sort periods))))"
proof (cases "listPeriods E (''/'' @ ReportName config @ ''/'')
                (ListPages E (BucketName config) (''/'' @ ReportName config @ ''/'')) [] w")
  case (Pair w1 r)
  then show ?thesis
    by (cases r) (simp_all add: GetBillingPeriods_def Let_def split: option.splits)
qed

lemma sorted_drop_sort: "sorted (drop n (sort (xs :: string list)))"
  by (simp add: sorted_wrt_drop)

subsection \<open>The effects of one update\<close>

lemma manifestChecks_append [simp]:
  "manifestChecks (xs @ ys) = manifestChecks xs @ manifestChecks ys"
  by (induction xs rule: manifestChecks.induct) simp_all

lemma manifestChecks_parts [simp]: "manifestChecks (map EvGetPart ks) = []"
  by (induction ks) simp_all

lemma FetchReport_trace:
  "FetchReport E config w manifest = (w', out) \<Longrightarrow>
     \<exists>ks. trace w' = trace w @ map EvGetPart ks"
proof (cases "RefreshClient E ForReport")
  case (Some e)
  assume "FetchReport E config w manifest = (w', out)"
  with Some have "trace w' = trace w @ map EvGetPart []" by (simp add: FetchReport_def)
  then show ?thesis by blast
next
  case None
  assume run: "FetchReport E config w manifest = (w', out)"
  show ?thesis
  proof (cases "time_Parse_Format E (BillingPeriod_Start manifest)")
    case (Inl e)
    with None run have "trace w' = trace w @ map EvGetPart []" by (simp add: FetchReport_def)
    then show ?thesis by blast
  next
    case (Inr periodStart)
    with None run
    have "fetchParts E config manifest periodStart w 0 (ReportKeys manifest) = (w', out)"
      by (simp add: FetchReport_def)
    then show ?thesis by (rule fetchParts_trace)
  qed
qed

lemma UpdateReport_trace:
  assumes "UpdateReport E config w state period = (w', state', out)"
  shows "\<exists>tr. trace w' = trace w @ tr
      \<and> (tr = [] \<or> tr = [EvGetManifest period]
           \<or> (\<exists>ks. tr = EvGetManifest period # EvResetSqlite # map EvGetPart ks))
      \<and> (\<forall>c. out = Return (c, None) \<longrightarrow> tr \<noteq> [])
      \<and> (out = Return (True, None) \<longrightarrow> EvResetSqlite \<in> set tr)"
proof -
  let ?lm = "case ReportLastModified state period of Some t \<Rightarrow> t | None \<Rightarrow> 0"
  obtain w1 lm gout where g0: "GetReportManifest E config w period ?lm = (w1, lm, gout)"
    by (metis prod_cases3)
  show ?thesis
  proof (cases gout)
    case Panic
    with g0 assms UpdateReport_panic[of E config w period state w1 lm]
    have "w' = w1" "out = Panic" by simp_all
    moreover from g0 Panic have "w1 = emit (EvGetManifest period) w"
      by (intro GetReportManifest_panic) simp
    ultimately have "trace w' = trace w @ [EvGetManifest period]" "out = Panic"
      by (simp_all add: emit_def)
    then show ?thesis by auto
  next
    case (Return x)
    obtain res err where x: "x = (res, err)" by (cases x)
    from g0 Return x
    have g: "GetReportManifest E config w period ?lm = (w1, lm, Return (res, err))" by simp
    note r = GetReportManifest_result[OF g]
    show ?thesis
    proof (cases err)
      case (Some e)
      with assms UpdateReport_err[of E config w period state w1 lm res e] g
      have "w' = w1" "out = Return (False, Some e)" by simp_all
      with r have "trace w' = trace w @ [] \<or> trace w' = trace w @ [EvGetManifest period]"
        by (auto simp add: emit_def)
      with \<open>out = Return (False, Some e)\<close> show ?thesis by auto
    next
      case None
      with r have w1: "w1 = emit (EvGetManifest period) w" by simp
      show ?thesis
      proof (cases res)
        case None
        with \<open>err = None\<close> assms UpdateReport_absent[of E config w period state w1 lm] g
        have "w' = w1" "out = Return (False, None)" by simp_all
        with w1 have "trace w' = trace w @ [EvGetManifest period]" by (simp add: emit_def)
        with \<open>out = Return (False, None)\<close> show ?thesis by auto
      next
        case (Some manifest)
        let ?w2 = "emit EvResetSqlite w1"
        obtain table rerr where rs: "ResetSqlite E (db ?w2) = (table, rerr)"
          by (cases "ResetSqlite E (db ?w2)")
        obtain w3 fo where f: "FetchReport E config (?w2\<lparr>db := table\<rparr>) manifest = (w3, fo)"
          by (cases "FetchReport E config (?w2\<lparr>db := table\<rparr>) manifest")
        from g \<open>err = None\<close> \<open>res = Some manifest\<close>
        have g': "GetReportManifest E config w period ?lm
                    = (w1, lm, Return (Some manifest, None))" by simp
        note u = UpdateReport_present[OF g' rs f]
        have t2: "trace (?w2\<lparr>db := table\<rparr>) = trace w @ [EvGetManifest period, EvResetSqlite]"
          using w1 by (simp add: emit_def)
        show ?thesis
        proof (cases rerr)
          case (Some e)
          with assms u
          have "w' = ?w2\<lparr>db := table\<rparr>" "out = Return (False, Some e)" by simp_all
          with t2
          have "trace w' = trace w @ EvGetManifest period # EvResetSqlite # map EvGetPart []"
            by simp
          with \<open>out = Return (False, Some e)\<close> show ?thesis by blast
        next
          case None
          from FetchReport_trace[OF f] t2 obtain ks where
            t3: "trace w3 = trace w @ EvGetManifest period # EvResetSqlite # map EvGetPart ks"
            by auto
          from None assms u have "w' = w3"
            by (auto split: outcome.splits option.splits)
          with t3 show ?thesis by auto
        qed
      qed
    qed
  qed
qed

lemma UpdateReport_checks:
  assumes "UpdateReport E config w state period = (w', state', out)"
  shows "\<exists>tr. trace w' = trace w @ tr
      \<and> (manifestChecks tr = [] \<or> manifestChecks tr = [period])
      \<and> (\<forall>c. out = Return (c, None) \<longrightarrow> manifestChecks tr = [period])"
proof -
  from UpdateReport_trace[OF assms] obtain tr where tr: "trace w' = trace w @ tr"
    "tr = [] \<or> tr = [EvGetManifest period]
       \<or> (\<exists>ks. tr = EvGetManifest period # EvResetSqlite # map EvGetPart ks)"
    "\<forall>c. out = Return (c, None) \<longrightarrow> tr \<noteq> []" by blast
  from tr(2) have "manifestChecks tr = [] \<and> tr = [] \<or> manifestChecks tr = [period]" by auto
  with tr(1,3) show ?thesis by blast
qed

lemma UpdateReport_keeps_entries:
  assumes "UpdateReport E config w state period = (w', state', out)"
  shows "other \<noteq> period \<Longrightarrow> ReportLastModified state' other = ReportLastModified state other"
    and "ReportLastModified state' other = None \<Longrightarrow> ReportLastModified state other = None"
  using UpdateReport_state[OF assms]
  by (cases "out = Return (True, None)"; auto split: if_splits)+

subsection \<open>The loop of Prefetch\<close>

lemma Prefetch_from_step:
  assumes "UpdateReport E config w state period = (w1, state1, r)"
    and "ReportLastModified state period = None \<or> int i = int n - 1"
  shows "Prefetch_from E config n w state i (period # periods) =
     (case r of
        Panic \<Rightarrow> (w1, state1, Panic)
      | Return (c, Some e) \<Rightarrow> (w1, state1, Return (Some e))
      | Return (c, None) \<Rightarrow> Prefetch_from E config n w1 state1 (Suc i) periods)"
  using assms by (auto simp add: Let_def split: outcome.splits option.splits)

lemma Prefetch_from_checks:
  assumes "Prefetch_from E config n w state i periods = (w', state', out)"
    and "i + length periods = n"
  shows "\<exists>tr. trace w' = trace w @ tr
      \<and> (\<forall>p \<in> set (manifestChecks tr).
            p \<in> set periods \<and> (ReportLastModified state p = None \<or> p = last periods))
      \<and> (out = Return None \<longrightarrow>
            (periods \<noteq> [] \<longrightarrow> manifestChecks tr \<noteq> [] \<and> last (manifestChecks tr) = last periods)
            \<and> (\<forall>p \<in> set periods. ReportLastModified state p = None
                  \<longrightarrow> p \<in> set (manifestChecks tr)))"
  using assms
proof (induction periods arbitrary: w state i)
  case Nil
  then have "trace w' = trace w @ []" by simp
  then show ?case by (metis empty_iff list.set(1) manifestChecks.simps(1))
next
  case (Cons period periods)
  have isLast: "(int i = int n - 1) \<longleftrightarrow> periods = []"
    using Cons.prems(2) by auto
  have len: "Suc i + length periods = n" using Cons.prems(2) by simp
  show ?case
  proof (cases "ReportLastModified state period = None \<or> periods = []")
    case True
    obtain w1 state1 r where u: "UpdateReport E config w state period = (w1, state1, r)"
      by (metis prod_cases3)
    from UpdateReport_checks[OF u] obtain tr1 where tr1: "trace w1 = trace w @ tr1"
      "manifestChecks tr1 = [] \<or> manifestChecks tr1 = [period]"
      "\<forall>c. r = Return (c, None) \<longrightarrow> manifestChecks tr1 = [period]" by blast
    have first: "\<forall>p \<in> set (manifestChecks tr1).
        p \<in> set (period # periods)
        \<and> (ReportLastModified state p = None \<or> p = last (period # periods))"
      using tr1(2) True by auto
    from True isLast have due: "ReportLastModified state period = None \<or> int i = int n - 1"
      by simp
    note step = Prefetch_from_step[OF u due, of periods]
    consider (stop) "w' = w1" "out \<noteq> Return None"
      | (go) c where "r = Return (c, None)"
          "Prefetch_from E config n w1 state1 (Suc i) periods = (w', state', out)"
    proof (cases r)
      case Panic
      with step Cons.prems(1) have "w' = w1" "out \<noteq> Return None" by (auto simp del: Prefetch_from.simps)
      then show ?thesis by (rule stop)
    next
      case (Return x)
      obtain c eo where x: "x = (c, eo)" by (cases x)
      show ?thesis
      proof (cases eo)
        case None
        with Return x step Cons.prems(1) show ?thesis by (intro go[of c]) (auto simp del: Prefetch_from.simps)
      next
        case (Some e)
        with Return x step Cons.prems(1) have "w' = w1" "out \<noteq> Return None" by (auto simp del: Prefetch_from.simps)
        then show ?thesis by (rule stop)
      qed
    qed
    then show ?thesis
    proof cases
      case stop
      with tr1(1) first show ?thesis by blast
    next
      case (go c)
      note r = go(1) and rest = go(2)
      from Cons.IH[OF rest len] obtain tr2 where tr2: "trace w' = trace w1 @ tr2"
        "\<forall>p \<in> set (manifestChecks tr2).
            p \<in> set periods \<and> (ReportLastModified state1 p = None \<or> p = last periods)"
        "out = Return None \<longrightarrow>
            (periods \<noteq> [] \<longrightarrow> manifestChecks tr2 \<noteq> [] \<and> last (manifestChecks tr2) = last periods)
            \<and> (\<forall>p \<in> set periods. ReportLastModified state1 p = None
                  \<longrightarrow> p \<in> set (manifestChecks tr2))" by blast
      from r tr1(3) have c1: "manifestChecks tr1 = [period]" by blast
      have t: "trace w' = trace w @ (tr1 @ tr2)" using tr1(1) tr2(1) by simp
      have a: "\<forall>p \<in> set (manifestChecks (tr1 @ tr2)).
            p \<in> set (period # periods)
            \<and> (ReportLastModified state p = None \<or> p = last (period # periods))"
      proof
        fix p assume "p \<in> set (manifestChecks (tr1 @ tr2))"
        then consider "p \<in> set (manifestChecks tr1)" | "p \<in> set (manifestChecks tr2)" by auto
        then show "p \<in> set (period # periods)
            \<and> (ReportLastModified state p = None \<or> p = last (period # periods))"
        proof cases
          case 1
          with first show ?thesis by blast
        next
          case 2
          with tr2(2) have p: "p \<in> set periods"
            "ReportLastModified state1 p = None \<or> p = last periods" by auto
          from p(2) UpdateReport_keeps_entries(2)[OF u]
          have "ReportLastModified state p = None \<or> p = last periods" by blast
          with p(1) show ?thesis by auto
        qed
      qed
      have b: "(period # periods \<noteq> [] \<longrightarrow> manifestChecks (tr1 @ tr2) \<noteq> []
                 \<and> last (manifestChecks (tr1 @ tr2)) = last (period # periods))
            \<and> (\<forall>p \<in> set (period # periods). ReportLastModified state p = None
                  \<longrightarrow> p \<in> set (manifestChecks (tr1 @ tr2)))" if ok: "out = Return None"
      proof -
        from ok tr2(3) have l: "periods \<noteq> [] \<longrightarrow> manifestChecks tr2 \<noteq> []
              \<and> last (manifestChecks tr2) = last periods"
          and m: "\<forall>p \<in> set periods. ReportLastModified state1 p = None
                  \<longrightarrow> p \<in> set (manifestChecks tr2)" by auto
        have "last (manifestChecks (tr1 @ tr2)) = last (period # periods)"
        proof (cases "periods = []")
          case True
          with tr2(2) have "manifestChecks tr2 = []" by (cases "manifestChecks tr2") auto
          with c1 True show ?thesis by simp
        next
          case False
          with l c1 show ?thesis by simp
        qed
        moreover have "p \<in> set (manifestChecks (tr1 @ tr2))"
          if "p \<in> set (period # periods)" "ReportLastModified state p = None" for p
        proof (cases "p = period")
          case True
          with c1 show ?thesis by simp
        next
          case False
          with that(1) have "p \<in> set periods" by simp
          moreover from False that(2) UpdateReport_keeps_entries(1)[OF u]
          have "ReportLastModified state1 p = None" by simp
          ultimately show ?thesis using m by simp
        qed
        ultimately show ?thesis using c1 by simp
      qed
      from t a b show ?thesis by blast
    qed
  next
    case False
    then have cached: "ReportLastModified state period \<noteq> None" and more: "periods \<noteq> []" by auto
    with Cons.prems(1) isLast
    have rest: "Prefetch_from E config n w state (Suc i) periods = (w', state', out)"
      by (simp add: Let_def)
    from Cons.IH[OF rest len] obtain tr where tr: "trace w' = trace w @ tr"
        "\<forall>p \<in> set (manifestChecks tr).
            p \<in> set periods \<and> (ReportLastModified state p = None \<or> p = last periods)"
        "out = Return None \<longrightarrow>
            (periods \<noteq> [] \<longrightarrow> manifestChecks tr \<noteq> [] \<and> last (manifestChecks tr) = last periods)
            \<and> (\<forall>p \<in> set periods. ReportLastModified state p = None
                  \<longrightarrow> p \<in> set (manifestChecks tr))" by blast
    from tr(2) more have a: "\<forall>p \<in> set (manifestChecks tr).
            p \<in> set (period # periods)
            \<and> (ReportLastModified state p = None \<or> p = last (period # periods))" by auto
    from tr(3) more cached have b: "out = Return None \<longrightarrow>
            (period # periods \<noteq> [] \<longrightarrow> manifestChecks tr \<noteq> []
               \<and> last (manifestChecks tr) = last (period # periods))
            \<and> (\<forall>p \<in> set (period # periods). ReportLastModified state p = None
                  \<longrightarrow> p \<in> set (manifestChecks tr))" by auto
    from tr(1) a b show ?thesis by blast
  qed
qed

subsection \<open>The scrape cycle\<close>





subsection \<open>Fixed-width numbers\<close>

lemma digit_of_value: "is_digit c \<Longrightarrow> digit_value c < 10 \<and> ''0123456789'' ! digit_value c = c"
  by (auto simp add: is_digit_def digit_value_def)

lemma number_snoc: "number (ds @ [c]) = 10 * number ds + digit_value c"
  by (simp add: number_def)

lemma fixed_width_number:
  "list_all is_digit ds \<Longrightarrow> length ds = k \<Longrightarrow> fixed_width k (number ds) = ds"
proof (induction ds arbitrary: k rule: rev_induct)
  case Nil
  then show ?case by simp
next
  case (snoc c ds)
  from snoc.prems(1) have c: "digit_value c < 10" "''0123456789'' ! digit_value c = c"
    and ds: "list_all is_digit ds"
    using digit_of_value by auto
  from snoc.prems(2) obtain k' where k: "k = Suc k'" "length ds = k'" by auto
  from c(1) have "(10 * number ds + digit_value c) div 10 = number ds"
    and "(10 * number ds + digit_value c) mod 10 = digit_value c" by auto
  with k c(2) snoc.IH[OF ds k(2)] show ?case by (simp add: number_snoc)
qed

lemma fixed_width_numeral:
  "fixed_width (numeral k) n
     = fixed_width (pred_numeral k) (n div 10) @ [''0123456789'' ! (n mod 10)]"
  by (subst numeral_eq_Suc) (rule fixed_width.simps)

lemma parse_date_format: "parse_date s = Some d \<Longrightarrow> format_date d = s"
proof (induction s rule: parse_date.induct)
  case (1 y1 y2 y3 y4 s1 m1 m2 s2 d1 d2)
  then have sep: "s1 = CHR ''-''" "s2 = CHR ''-''"
    and dig: "list_all is_digit [y1, y2, y3, y4]" "list_all is_digit [m1, m2]"
      "list_all is_digit [d1, d2]"
    and d: "d = \<lparr>year = number [y1, y2, y3, y4], month = number [m1, m2],
                 day = number [d1, d2]\<rparr>"
    by (auto split: if_splits)
  have "fixed_width 4 (number [y1, y2, y3, y4]) = [y1, y2, y3, y4]"
    "fixed_width 2 (number [m1, m2]) = [m1, m2]"
    "fixed_width 2 (number [d1, d2]) = [d1, d2]"
    using dig by (simp_all only: fixed_width_number list.size length_Cons) 
  with sep d show ?case by (simp add: format_date_def)
qed simp_all

lemmas scrape_defs = gatherer_def currentPeriod_def publish_def state_Save_def
  processor_Compute_def reg_Gather_def Prefetch_def

section \<open>Claims\<close>

text \<open>
  C1, as stated: if the ingestion of any part of a manifest fails, the stored records are
  exactly as they were before the ingestion began. It fails on the code: each part has its
  own transaction, committed before the next part begins. With two parts, the second of
  which fails at its second row, \<^verbatim>\<open>FetchReport\<close> returns the error, the row of the first
  part stays committed and the row already inserted from the second part is rolled back.
\<close>

theorem FetchReport_fails_after_part:
  "snd (FetchReport env_failing config0 world0 manifest0)
     = Return (Some (LibError ''disk I/O error''))
   \<and> db world0 = [[''old'']]
   \<and> db (fst (FetchReport env_failing config0 world0 manifest0)) = [[''old''], row0]
   \<and> db (fst (FetchReport env_failing config0 world0 manifest0)) \<noteq> db world0"
  by (simp add: env_failing_def example_defs run_defs)

text \<open>
  C1, amended: the atomic unit is the part. When \<^verbatim>\<open>FetchReport\<close> returns an error, the
  store holds the rows it held before the call followed by whole parts only: either nothing
  at all has changed, or the store is the one a successful \<^verbatim>\<open>FetchReport\<close> of the first
  \<open>k\<close> parts of the same manifest leaves, for some \<open>k\<close> below the number of parts.
\<close>

theorem FetchReport_error_keeps_whole_parts:
  assumes "FetchReport E config w manifest = (w', Return (Some err))"
  shows "(\<exists>rows. db w' = db w @ rows) \<and>
         (w' = w \<or>
          (\<exists>k wk. k < length (ReportKeys manifest)
             \<and> FetchReport E config w (manifest\<lparr>ReportKeys := take k (ReportKeys manifest)\<rparr>)
                 = (wk, Return None)
             \<and> db w' = db wk))"
proof (cases "RefreshClient E ForReport")
  case (Some e)
  with assms show ?thesis by (simp add: FetchReport_def)
next
  case None
  show ?thesis
  proof (cases "time_Parse_Format E (BillingPeriod_Start manifest)")
    case (Inl e)
    with None assms show ?thesis by (simp add: FetchReport_def)
  next
    case (Inr periodStart)
    with None assms
    have run: "fetchParts E config manifest periodStart w 0 (ReportKeys manifest)
                = (w', Return (Some err))"
      by (simp add: FetchReport_def)
    from fetchParts_error[OF run] obtain k wk where k: "k < length (ReportKeys manifest)"
      "fetchParts E config manifest periodStart w 0 (take k (ReportKeys manifest)) = (wk, Return None)"
      "db w' = db wk" by blast
    from k(2) None Inr
    have "FetchReport E config w (manifest\<lparr>ReportKeys := take k (ReportKeys manifest)\<rparr>)
            = (wk, Return None)"
      by (simp add: FetchReport_def)
    with k(1,3) fetchParts_appends[OF run] show ?thesis by blast
  qed
qed

theorem FetchReport_error_keeps_whole_parts_witness:
  "FetchReport env_failing config0 world0 (manifest0\<lparr>ReportKeys := [''part-0'']\<rparr>)
     = (world0\<lparr>db := [[''old''], row0], files := [''/repo/data/20240101-a1-0.csv''], trace := [EvGetPart ''part-0'']\<rparr>, Return None)
   \<and> (\<exists>rows. db (fst (FetchReport env_failing config0 world0 manifest0)) = db world0 @ rows)"
proof -
  have run: "FetchReport env_failing config0 world0 manifest0
      = (fst (FetchReport env_failing config0 world0 manifest0),
         Return (Some (LibError ''disk I/O error'')))"
    by (simp add: env_failing_def example_defs run_defs)
  have one: "FetchReport env_failing config0 world0 (manifest0\<lparr>ReportKeys := [''part-0'']\<rparr>)
     = (world0\<lparr>db := [[''old''], row0], files := [''/repo/data/20240101-a1-0.csv''], trace := [EvGetPart ''part-0'']\<rparr>, Return None)"
    by (simp add: env_failing_def example_defs run_defs)
  from FetchReport_error_keeps_whole_parts [OF run] one show ?thesis by blast
qed

text \<open>
  C2: a part whose header lacks a required column must fail with a returned error and insert
  no row. The code computes the index \<open>-1\<close> for the absent column and never tests it: with
  a data row, \<^verbatim>\<open>record[-1]\<close> panics at line 277 (no row is committed, and no error is
  returned); with no data row, the part is ingested without any error.
\<close>

theorem FetchReport_missing_column_panics:
  "index header_missing ''lineItem/UsageAccountId'' = - 1
   \<and> FetchReport env_missing config0 world0 manifest0
       = (world0\<lparr>trace := [EvGetPart ''part-0'']\<rparr>, Panic)
   \<and> snd (FetchReport env_missing_norows config0 world0 manifest0) = Return None
   \<and> db (fst (FetchReport env_missing_norows config0 world0 manifest0)) = db world0"
  by (simp add: env_missing_def env_missing_norows_def header_missing_def example_defs run_defs)

text \<open>
  C3: when the remote manifest of a period was not modified after the stored watermark, the
  conditional fetch returns no manifest and no error and leaves the watermark it was given
  as it is, and \<^verbatim>\<open>UpdateReport\<close> reports no change: the only effect is the request for the
  manifest, so no part is downloaded and no row, file or state entry changes.
\<close>

theorem unchanged_manifest_is_absent:
  assumes "RefreshClient E ForManifest = None"
    and "ReportLastModified state period = Some watermark"
    and "Manifests E (BucketName config) (manifestKey config period) = Inr obj"
    and "LastModified obj \<le> watermark"
  shows "GetReportManifest E config w period watermark
           = (emit (EvGetManifest period) w, watermark, Return (None, None))
       \<and> UpdateReport E config w state period
           = (emit (EvGetManifest period) w, state, Return (False, None))"
  using assms GetReportManifest_NotModified[OF assms(1,3,4), of w]
  by (simp add: UpdateReport_def)

theorem unchanged_manifest_is_absent_witness:
  "UpdateReport env0 config0 world0
      (state0\<lparr>ReportLastModified := [''20240101-20240201'' \<mapsto> 100]\<rparr>) ''20240101-20240201''
     = (world0\<lparr>trace := [EvGetManifest ''20240101-20240201'']\<rparr>,
        state0\<lparr>ReportLastModified := [''20240101-20240201'' \<mapsto> 100]\<rparr>, Return (False, None))"
  using unchanged_manifest_is_absent [of env0
      "state0\<lparr>ReportLastModified := [''20240101-20240201'' \<mapsto> 100]\<rparr>"
      "''20240101-20240201''" 100 config0
      "\<lparr>LastModified = 100, Body = Inr (Some manifest0)\<rparr>" world0]
  by (simp add: env0_def emit_def world0_def)

text \<open>
  C5: every manifest that was retrieved and decoded without error must either be returned
  or be answered by an error, the error exactly when the content type, the bucket or the
  list of report keys is wrong. The code does so for every decoded manifest object
  (\<open>GetReportManifest_validation\<close>), but not for the body \<^verbatim>\<open>null\<close>: the decoder returns no
  error and leaves the pointer \<^verbatim>\<open>nil\<close>, no check precedes \<^verbatim>\<open>manifest.ContentType\<close> at
  line 178, and the call panics, so that neither an error nor a manifest is returned.
  \<^verbatim>\<open>*lastModified\<close> has been written by then; \<^verbatim>\<open>UpdateReport\<close> passes the panic on, and
  nothing is reset or ingested.
\<close>

theorem GetReportManifest_null_manifest_panics:
  "GetObject_IfModifiedSince
     (Manifests env_null (BucketName config0) (manifestKey config0 ''20240101-20240201'')) 0
     = Inr \<lparr>LastModified = 100, Body = Inr None\<rparr>
   \<and> GetReportManifest env_null config0 world0 ''20240101-20240201'' 0
       = (world0\<lparr>trace := [EvGetManifest ''20240101-20240201'']\<rparr>, 100, Panic)
   \<and> UpdateReport env_null config0 world0 state0 ''20240101-20240201''
       = (world0\<lparr>trace := [EvGetManifest ''20240101-20240201'']\<rparr>, state0, Panic)"
  by (simp add: env_null_def example_defs UpdateReport_def GetReportManifest_def
      GetObject_IfModifiedSince_def manifestKey_def emit_def)

text \<open>
  C6: a call of \<^verbatim>\<open>UpdateReport\<close> for a period changes the state only when it returns
  \<open>(true, nil)\<close>; after an error, an unchanged manifest or a panic the state is as before.
  A successful call sets the watermark of that period to an instant that is not before the
  previous one (the zero instant when there was none), and never touches the entry of
  another period.
\<close>

theorem UpdateReport_watermark:
  assumes "UpdateReport E config w state period = (w', state', out)"
  shows "(out \<noteq> Return (True, None) \<longrightarrow> state' = state) \<and>
         (out = Return (True, None) \<longrightarrow>
            (\<exists>t. ReportLastModified state' = (ReportLastModified state)(period \<mapsto> t)
               \<and> (case ReportLastModified state period of Some t0 \<Rightarrow> t0 | None \<Rightarrow> 0) \<le> t)) \<and>
         (\<forall>other. other \<noteq> period \<longrightarrow>
            ReportLastModified state' other = ReportLastModified state other)"
  using UpdateReport_state[OF assms] by (cases "out = Return (True, None)") auto

theorem UpdateReport_watermark_witness:
  "snd (snd (UpdateReport env0 config0 world0 state0 ''20240101-20240201'')) = Return (True, None)
   \<and> ReportLastModified state0 ''20240101-20240201'' = None
   \<and> ReportLastModified (fst (snd (UpdateReport env0 config0 world0 state0 ''20240101-20240201'')))
        ''20240101-20240201'' = Some 100
   \<and> ReportLastModified (fst (snd (UpdateReport env0 config0 world0 state0 ''20240101-20240201'')))
        ''20231201-20240101'' = Some 50"
proof -
  let ?U = "UpdateReport env0 config0 world0 state0 ''20240101-20240201''"
  have out: "snd (snd ?U) = Return (True, None)"
    by (simp add: example_defs run_defs)
  have new: "ReportLastModified (fst (snd ?U)) ''20240101-20240201'' = Some 100"
    by (simp add: example_defs run_defs)
  have old: "ReportLastModified state0 ''20231201-20240101'' = Some 50"
    and none: "ReportLastModified state0 ''20240101-20240201'' = None"
    by (simp_all add: state0_def)
  have run: "?U = (fst ?U, fst (snd ?U), Return (True, None))"
    using out by (metis prod.collapse)
  have "\<forall>other. other \<noteq> ''20240101-20240201'' \<longrightarrow>
          ReportLastModified (fst (snd ?U)) other = ReportLastModified state0 other"
    using UpdateReport_watermark [OF run] by blast
  then have "ReportLastModified (fst (snd ?U)) ''20231201-20240101''
               = ReportLastModified state0 ''20231201-20240101''"
    by simp
  with out new old none show ?thesis by (simp only: simp_thms)
qed

text \<open>
  C10: with an empty list of known periods the gatherer only gathers the metrics of the
  registry: its single effect is \<^verbatim>\<open>reg.Gather()\<close>; there is no listing, no manifest request,
  no ingestion, no save and no computation, and the state, the rows, the files, the state
  file and the registry are unchanged.
\<close>

theorem gatherer_without_periods:
  "Periods state = [] \<Longrightarrow>
   gatherer E config w state =
     (w\<lparr>trace := trace w @ [EvGather]\<rparr>, state, Return (Inr (registry w)))"
  by (simp add: gatherer_def reg_Gather_def emit_def)

theorem gatherer_without_periods_witness:
  "Periods (state0\<lparr>Periods := []\<rparr>) = [] \<and>
   gatherer env0 config0 world0 (state0\<lparr>Periods := []\<rparr>) =
     (world0\<lparr>trace := [EvGather]\<rparr>, state0\<lparr>Periods := []\<rparr>, Return (Inr []))"
  using gatherer_without_periods [of "state0\<lparr>Periods := []\<rparr>" env0 config0 world0]
  by (simp add: world0_def)

text \<open>
  C4: the resolution parses every listed prefix, cut to the name between the report prefix
  and the final slash. When it succeeds, every page was listed and every prefix parsed, and
  the result is the ascending sort of the parsed periods cut to its last three entries, so it
  is sorted with the most recent period last and has at most three entries. A single
  prefix that does not parse makes the resolution return an error and no list. The result
  depends on the remote listing only, not on the local state, so two resolutions over the
  same listing return the same sequence.
\<close>

theorem GetBillingPeriods_resolution:
  assumes "GetBillingPeriods E config w = (w', res)"
  shows "(\<forall>periods. res = Inr periods \<longrightarrow>
            sorted periods \<and> length periods \<le> 3 \<and>
            (\<exists>pages names.
               ListPages E (BucketName config) (''/'' @ ReportName config @ ''/'') = map Inr pages
               \<and> map (\<lambda>obj. ParseBillingPeriod E
                       (TrimSuffix (TrimPrefix obj (''/'' @ ReportName config @ ''/'')) ''/''))
                     (concat pages) = map Inr names
               \<and> periods = drop (length names - 3) (sort names)))
       \<and> ((\<exists>objs obj. Inr objs \<in> set (ListPages E (BucketName config)
                                        (''/'' @ ReportName config @ ''/''))
              \<and> obj \<in> set objs
              \<and> isl (ParseBillingPeriod E
                       (TrimSuffix (TrimPrefix obj (''/'' @ ReportName config @ ''/'')) ''/'')))
           \<longrightarrow> isl res)
       \<and> snd (GetBillingPeriods E config w2) = res"
proof -
  let ?pre = "''/'' @ ReportName config @ ''/''"
  let ?parse = "\<lambda>obj. ParseBillingPeriod E (TrimSuffix (TrimPrefix obj ?pre) ''/'')"
  let ?L = "listPeriods E ?pre (ListPages E (BucketName config) ?pre) []"
  have indep: "snd (GetBillingPeriods E config w2) = snd (GetBillingPeriods E config w)"
    by (simp only: GetBillingPeriods_snd listPeriods_result_world [of E _ _ "[]" w2 w])
  have shape: "\<exists>pages names. ListPages E (BucketName config) ?pre = map Inr pages
       \<and> map ?parse (concat pages) = map Inr names
       \<and> periods = drop (length names - 3) (sort names)" if "res = Inr periods" for periods
  proof -
    from that assms have "snd (GetBillingPeriods E config w) = Inr periods" by simp
    then obtain ps where ps: "snd (?L w) = Inr ps"
      and per: "periods = drop (length ps - 3) (sort ps)"
      by (auto simp add: GetBillingPeriods_snd split: option.splits sum.splits)
    from listPeriods_Inr[OF ps]
    obtain pgs names where h: "ListPages E (BucketName config) ?pre = map Inr pgs"
      "map ?parse (concat pgs) = map Inr names" "ps = names" by auto
    from per h(3) have "periods = drop (length names - 3) (sort names)" by auto
    with h(1,2) show ?thesis by blast
  qed
  have bad: "isl res" if "Inr objs \<in> set (ListPages E (BucketName config) ?pre)"
      "obj \<in> set objs" "isl (?parse obj)" for objs obj
  proof (rule ccontr)
    assume "\<not> isl res"
    then obtain periods where "res = Inr periods" by (cases res) auto
    from shape[OF this] obtain pages names where
      h: "ListPages E (BucketName config) ?pre = map Inr pages"
         "map ?parse (concat pages) = map Inr names" by blast
    from that(1) h(1) have "objs \<in> set pages" by auto
    with that(2) have "obj \<in> set (concat pages)" by auto
    then have "?parse obj \<in> set (map ?parse (concat pages))" by simp
    with h(2) have "?parse obj \<in> set (map Inr names)" by simp
    with that(3) show False by auto
  qed
  from shape bad indep assms show ?thesis
    by (auto simp add: sorted_drop_sort)
qed

theorem GetBillingPeriods_resolution_witness:
  "GetBillingPeriods env0 config0 world0
     = (world0\<lparr>trace := [EvListPage, EvListPage]\<rparr>,
        Inr [''20231101-20231201'', ''20231201-20240101'', ''20240101-20240201''])
   \<and> isl (snd (GetBillingPeriods env_malformed config0 world0))"
proof -
  have run: "GetBillingPeriods env0 config0 world0
     = (world0\<lparr>trace := [EvListPage, EvListPage]\<rparr>,
        Inr [''20231101-20231201'', ''20231201-20240101'', ''20240101-20240201''])"
    by (simp add: GetBillingPeriods_def example_defs TrimPrefix_def TrimSuffix_def emit_def)
  have bad: "GetBillingPeriods env_malformed config0 world0
     = (fst (GetBillingPeriods env_malformed config0 world0),
        snd (GetBillingPeriods env_malformed config0 world0))" by simp
  have "Inr [''/cur/20240101-20240201/'', ''/cur/lost+found/'']
          \<in> set (ListPages env_malformed (BucketName config0) (''/'' @ ReportName config0 @ ''/''))
        \<and> ''/cur/lost+found/'' \<in> set [''/cur/20240101-20240201/'', ''/cur/lost+found/'']
        \<and> isl (ParseBillingPeriod env_malformed
             (TrimSuffix (TrimPrefix ''/cur/lost+found/'' (''/'' @ ReportName config0 @ ''/'')) ''/''))"
    by (simp add: env_malformed_def example_defs TrimPrefix_def TrimSuffix_def)
  with GetBillingPeriods_resolution [OF bad] have "isl (snd (GetBillingPeriods env_malformed config0 world0))"
    by blast
  with GetBillingPeriods_resolution [OF run] run show ?thesis by simp
qed

text \<open>
  C8: at startup \<^verbatim>\<open>Prefetch\<close> requests the manifest of a period other than the most
  recent one only if no watermark is recorded for it, and, when it returns without error,
  it has requested the manifest of every period without a watermark and, last of all, that
  of the most recent period, whatever its watermark.
\<close>

theorem Prefetch_checks:
  assumes "Prefetch E config w state periods = (w', state', out)"
  shows "\<exists>tr. trace w' = trace w @ tr
      \<and> (\<forall>p \<in> set (manifestChecks tr).
            p \<in> set periods \<and> (p \<noteq> last periods \<longrightarrow> ReportLastModified state p = None))
      \<and> (out = Return None \<longrightarrow>
            (periods \<noteq> [] \<longrightarrow> manifestChecks tr \<noteq> [] \<and> last (manifestChecks tr) = last periods)
            \<and> (\<forall>p \<in> set periods. ReportLastModified state p = None
                  \<longrightarrow> p \<in> set (manifestChecks tr)))"
proof -
  from assms have "Prefetch_from E config (length periods) w state 0 periods = (w', state', out)"
    by (simp add: Prefetch_def)
  from Prefetch_from_checks[OF this] obtain tr where tr: "trace w' = trace w @ tr"
      "\<forall>p \<in> set (manifestChecks tr).
            p \<in> set periods \<and> (ReportLastModified state p = None \<or> p = last periods)"
      "out = Return None \<longrightarrow>
            (periods \<noteq> [] \<longrightarrow> manifestChecks tr \<noteq> [] \<and> last (manifestChecks tr) = last periods)
            \<and> (\<forall>p \<in> set periods. ReportLastModified state p = None
                  \<longrightarrow> p \<in> set (manifestChecks tr))" by auto
  from tr(2) have "\<forall>p \<in> set (manifestChecks tr).
            p \<in> set periods \<and> (p \<noteq> last periods \<longrightarrow> ReportLastModified state p = None)"
    by blast
  with tr(1,3) show ?thesis by blast
qed

theorem Prefetch_checks_witness:
  "snd (snd (Prefetch env0 config0 world0 state0
       [''20231101-20231201'', ''20231201-20240101'', ''20240101-20240201''])) = Return None
   \<and> ReportLastModified state0 ''20231201-20240101'' = Some 50
   \<and> manifestChecks (trace (fst (Prefetch env0 config0 world0 state0
       [''20231101-20231201'', ''20231201-20240101'', ''20240101-20240201''])))
       = [''20231101-20231201'', ''20240101-20240201'']
   \<and> last (manifestChecks (trace (fst (Prefetch env0 config0 world0 state0
       [''20231101-20231201'', ''20231201-20240101'', ''20240101-20240201'']))))
       = ''20240101-20240201''"
proof -
  let ?ps = "[''20231101-20231201'', ''20231201-20240101'', ''20240101-20240201'']"
  let ?P = "Prefetch env0 config0 world0 state0 ?ps"
  have out: "snd (snd ?P) = Return None"
    by (simp add: scrape_defs example_defs run_defs)
  have checks: "manifestChecks (trace (fst ?P)) = [''20231101-20231201'', ''20240101-20240201'']"
    by (simp add: scrape_defs example_defs run_defs)
  have cached: "ReportLastModified state0 ''20231201-20240101'' = Some 50"
    by (simp add: state0_def)
  have run: "?P = (fst ?P, fst (snd ?P), Return None)"
    using out by (metis prod.collapse)
  from Prefetch_checks [OF run] obtain tr where
    h: "trace (fst ?P) = trace world0 @ tr"
       "?ps \<noteq> [] \<longrightarrow> manifestChecks tr \<noteq> [] \<and> last (manifestChecks tr) = last ?ps" by blast
  have "trace world0 = []" by (simp add: world0_def)
  with h have "last (manifestChecks (trace (fst ?P))) = ''20240101-20240201''" by simp
  with out checks cached show ?thesis by (simp only: simp_thms)
qed



text \<open>
  C9: for every string the parser of billing periods accepts, the canonical form of the
  parsed period is that string.
\<close>

theorem canonicalForm_parse:
  assumes "parse s = Inr period"
  shows "canonicalForm period = s"
proof -
  from assms have len: "length s = 21" and sep: "s ! 10 = CHR ''-''"
    by (auto simp add: parse_def split: if_splits)
  with assms obtain start finish where
    se: "parse_date (take 10 s) = Some start" "parse_date (drop 11 s) = Some finish"
    and p: "period = format_date start @ ''-'' @ format_date finish"
    by (auto simp add: parse_def split: option.splits)
  from len have "s = take 10 s @ s ! 10 # drop (Suc 10) s"
    by (intro id_take_nth_drop) simp
  with sep have "s = take 10 s @ ''-'' @ drop 11 s" by simp
  with p parse_date_format[OF se(1)] parse_date_format[OF se(2)] show ?thesis
    by (simp add: canonicalForm_def)
qed

theorem canonicalForm_parse_witness:
  "parse ''2024-01-01-2024-02-01'' = Inr ''2024-01-01-2024-02-01''
   \<and> canonicalForm ''2024-01-01-2024-02-01'' = ''2024-01-01-2024-02-01''"
proof -
  have p: "parse ''2024-01-01-2024-02-01'' = Inr ''2024-01-01-2024-02-01''"
    by (simp add: parse_def format_date_def number_def digit_value_def is_digit_def
        fixed_width_numeral)
  from canonicalForm_parse [OF p] p show ?thesis by simp
qed

end
